theory Spec2Isabelle
  imports Complex_Main "HOL-Library.Multiset"
begin

section \<open>Tensor statistics of \<^verbatim>\<open>nncf/common/tensor_statistics/statistics.py\<close>\<close>

text \<open>
  The module declares an abstract base class \<^verbatim>\<open>TensorStatistic\<close> with the abstract static
  method \<^verbatim>\<open>tensor_eq(tensor1, tensor2, rtol=1e-6)\<close> and five subclasses, each with its own
  \<^verbatim>\<open>__eq__\<close>. The embedding keeps Python's object model explicit:
  \<^item> objects live in a store, and \<^verbatim>\<open>self\<close> and \<^verbatim>\<open>other\<close> are addresses, so that the two
    operands may be the same object and so that "no field is changed" is a statement about
    the store a method returns;
  \<^item> \<^verbatim>\<open>tensor_eq\<close> has no body in this module; it is a parameter of every definition. It is
    taken as a function of its arguments (two values and the optional \<^verbatim>\<open>rtol\<close>), and each
    invocation is appended to a log kept in the state, so that "which calls were made, with
    which arguments" can be stated;
  \<^item> \<^verbatim>\<open>__eq__\<close> returns \<^verbatim>\<open>NotImplemented\<close> or a boolean, and an attribute or key that is
    missing raises; both are values of the result type.
\<close>

subsection \<open>Values, objects and the state\<close>

type_synonym addr = nat

text \<open>
  The values handed to \<^verbatim>\<open>tensor_eq\<close>: a tensor of the backend (type \<open>'t\<close>, the module's
  \<^verbatim>\<open>TensorType\<close>) or, for the \<^verbatim>\<open>shape\<close> field of \<^verbatim>\<open>MeanTensorStatistic\<close>, a Python list
  of integers.
\<close>

datatype 't pyval = Tensor 't | IntList "int list"

text \<open>
  The optional argument \<^verbatim>\<open>rtol\<close> of a call: \<open>None\<close> when the call site does not pass it
  (the callee's own default then applies), \<open>Some r\<close> when it passes \<open>r\<close>. A float literal
  is represented by the real number its decimal notation denotes.
\<close>

type_synonym 't tensor_eq = "'t pyval \<Rightarrow> 't pyval \<Rightarrow> real option \<Rightarrow> bool"

type_synonym 't call = "'t pyval \<times> 't pyval \<times> real option"

text \<open>
  One constructor per class, with the fields in the order of \<^verbatim>\<open>__init__\<close>:
  \<^verbatim>\<open>min_values, max_values\<close>; \<^verbatim>\<open>mean_values, shape\<close>; \<^verbatim>\<open>median_values, mad_values\<close>;
  \<^verbatim>\<open>percentile_vs_values_dict\<close>; \<^verbatim>\<open>values\<close>. A Python dict is an association list in
  insertion order (its keys are pairwise distinct in every dict Python builds; the key type
  \<open>'k\<close> carries the equality the dict uses). \<open>OtherObject\<close> is any value that is an instance of
  none of the five classes and inherits \<^verbatim>\<open>object.__eq__\<close>.
\<close>

datatype ('k, 't) pyobj =
    MinMaxTensorStatistic 't 't
  | MeanTensorStatistic 't "int list"
  | MedianMADTensorStatistic 't 't
  | PercentileTensorStatistic "('k \<times> 't) list"
  | RawTensorStatistic 't
  | OtherObject

record ('k, 't) world =
  heap :: "addr \<Rightarrow> ('k, 't) pyobj"
  calls :: "'t call list"

datatype py_error = AttributeError | KeyError

datatype eq_result = NotImplemented | PyBool bool

type_synonym ('k, 't, 'a) py = "('k, 't) world \<Rightarrow> (py_error + 'a) \<times> ('k, 't) world"

text \<open>
  The declared defaults: \<^verbatim>\<open>rtol: float = 1e-6\<close> of \<^verbatim>\<open>TensorStatistic.tensor_eq\<close> and
  \<^verbatim>\<open>rtol: float = 1e-9\<close> of \<^verbatim>\<open>PercentileTensorStatistic.__eq__\<close>.
\<close>

definition tensor_eq_default_rtol :: real where
  "tensor_eq_default_rtol = 1 / 10 ^ 6"

definition PercentileTensorStatistic_eq_default_rtol :: real where
  "PercentileTensorStatistic_eq_default_rtol = 1 / 10 ^ 9"

text \<open>
  A call \<^verbatim>\<open>self.tensor_eq(a, b)\<close> or \<^verbatim>\<open>self.tensor_eq(a, b, rtol=r)\<close>: the primitive's answer,
  and the call recorded at the end of the log.
\<close>

definition call_tensor_eq ::
  "'t tensor_eq \<Rightarrow> 't pyval \<Rightarrow> 't pyval \<Rightarrow> real option \<Rightarrow> ('k, 't) world \<Rightarrow> bool \<times> ('k, 't) world" where
  "call_tensor_eq tensor_eq a b r w = (tensor_eq a b r, w\<lparr>calls := calls w @ [(a, b, r)]\<rparr>)"

subsection \<open>Dictionaries and \<^verbatim>\<open>collections.Counter\<close>\<close>

definition dict_keys :: "('k \<times> 'v) list \<Rightarrow> 'k list" where
  "dict_keys d = map fst d"

text \<open>\<^verbatim>\<open>d[k]\<close> raises \<^verbatim>\<open>KeyError\<close> when the key is absent.\<close>

definition dict_getitem :: "('k \<times> 'v) list \<Rightarrow> 'k \<Rightarrow> py_error + 'v" where
  "dict_getitem d k = (case map_of d k of None \<Rightarrow> Inl KeyError | Some v \<Rightarrow> Inr v)"

text \<open>
  \<^verbatim>\<open>Counter(iterable)\<close> counts the occurrences of each element; two counters are equal when
  every element has the same count in both. That is the multiset of the elements.
\<close>

definition Counter :: "'k list \<Rightarrow> 'k multiset" where
  "Counter xs = mset xs"

subsection \<open>The five \<^verbatim>\<open>__eq__\<close> methods\<close>

text \<open>
  \<^verbatim>\<open>a and b\<close> evaluates \<^verbatim>\<open>b\<close> only when \<^verbatim>\<open>a\<close> is true: the second call of \<^verbatim>\<open>tensor_eq\<close> is
  made, and logged, only then. Reading a field of \<^verbatim>\<open>self\<close> that its class does not have
  raises \<^verbatim>\<open>AttributeError\<close> (a method invoked on an instance of its own class never does).
\<close>

definition MinMaxTensorStatistic_eq ::
  "'t tensor_eq \<Rightarrow> addr \<Rightarrow> addr \<Rightarrow> ('k, 't, eq_result) py" where
  "MinMaxTensorStatistic_eq tensor_eq self other w =
     (case heap w other of
        MinMaxTensorStatistic other_min other_max \<Rightarrow>
          (case heap w self of
             MinMaxTensorStatistic self_min self_max \<Rightarrow>
               (let (b1, w1) = call_tensor_eq tensor_eq (Tensor self_min) (Tensor other_min) None w in
                if b1 then
                  (let (b2, w2) = call_tensor_eq tensor_eq (Tensor self_max) (Tensor other_max) None w1
                   in (Inr (PyBool b2), w2))
                else (Inr (PyBool False), w1))
           | _ \<Rightarrow> (Inl AttributeError, w))
      | _ \<Rightarrow> (Inr NotImplemented, w))"

definition MeanTensorStatistic_eq ::
  "'t tensor_eq \<Rightarrow> addr \<Rightarrow> addr \<Rightarrow> ('k, 't, eq_result) py" where
  "MeanTensorStatistic_eq tensor_eq self other w =
     (case heap w other of
        MeanTensorStatistic other_mean other_shape \<Rightarrow>
          (case heap w self of
             MeanTensorStatistic self_mean self_shape \<Rightarrow>
               (let (b1, w1) = call_tensor_eq tensor_eq (Tensor self_mean) (Tensor other_mean) None w in
                if b1 then
                  (let (b2, w2) = call_tensor_eq tensor_eq (IntList self_shape) (IntList other_shape) None w1
                   in (Inr (PyBool b2), w2))
                else (Inr (PyBool False), w1))
           | _ \<Rightarrow> (Inl AttributeError, w))
      | _ \<Rightarrow> (Inr NotImplemented, w))"

definition MedianMADTensorStatistic_eq ::
  "'t tensor_eq \<Rightarrow> addr \<Rightarrow> addr \<Rightarrow> ('k, 't, eq_result) py" where
  "MedianMADTensorStatistic_eq tensor_eq self other w =
     (case heap w other of
        MedianMADTensorStatistic other_median other_mad \<Rightarrow>
          (case heap w self of
             MedianMADTensorStatistic self_median self_mad \<Rightarrow>
               (let (b1, w1) = call_tensor_eq tensor_eq (Tensor self_median) (Tensor other_median) None w in
                if b1 then
                  (let (b2, w2) = call_tensor_eq tensor_eq (Tensor self_mad) (Tensor other_mad) None w1
                   in (Inr (PyBool b2), w2))
                else (Inr (PyBool False), w1))
           | _ \<Rightarrow> (Inl AttributeError, w))
      | _ \<Rightarrow> (Inr NotImplemented, w))"

text \<open>
  The loop \<^verbatim>\<open>for pct in self.percentile_vs_values_dict\<close>, over the keys that remain: both
  subscripts are evaluated, \<^verbatim>\<open>tensor_eq\<close> is called without \<^verbatim>\<open>rtol\<close>, and the first
  false answer returns \<^verbatim>\<open>False\<close>.
\<close>

fun percentile_loop ::
  "'t tensor_eq \<Rightarrow> ('k \<times> 't) list \<Rightarrow> ('k \<times> 't) list \<Rightarrow> 'k list \<Rightarrow> ('k, 't, eq_result) py" where
  "percentile_loop tensor_eq self_dict other_dict [] w = (Inr (PyBool True), w)"
| "percentile_loop tensor_eq self_dict other_dict (pct # pcts) w =
     (case dict_getitem self_dict pct of
        Inl e \<Rightarrow> (Inl e, w)
      | Inr self_v \<Rightarrow>
          (case dict_getitem other_dict pct of
             Inl e \<Rightarrow> (Inl e, w)
           | Inr other_v \<Rightarrow>
               (let (b, w1) = call_tensor_eq tensor_eq (Tensor self_v) (Tensor other_v) None w in
                if \<not> b then (Inr (PyBool False), w1)
                else percentile_loop tensor_eq self_dict other_dict pcts w1)))"

text \<open>
  \<^verbatim>\<open>PercentileTensorStatistic.__eq__(self, other, rtol=1e-9)\<close>: the parameter \<open>rtol\<close> is
  received and, as in the source, occurs nowhere in the body.
\<close>

definition PercentileTensorStatistic_eq ::
  "'t tensor_eq \<Rightarrow> addr \<Rightarrow> addr \<Rightarrow> real \<Rightarrow> ('k, 't, eq_result) py" where
  "PercentileTensorStatistic_eq tensor_eq self other rtol w =
     (case heap w other of
        PercentileTensorStatistic other_dict \<Rightarrow>
          (case heap w self of
             PercentileTensorStatistic self_dict \<Rightarrow>
               if Counter (dict_keys self_dict) \<noteq> Counter (dict_keys other_dict)
               then (Inr (PyBool False), w)
               else percentile_loop tensor_eq self_dict other_dict (dict_keys self_dict) w
           | _ \<Rightarrow> (Inl AttributeError, w))
      | _ \<Rightarrow> (Inr NotImplemented, w))"

definition RawTensorStatistic_eq ::
  "'t tensor_eq \<Rightarrow> addr \<Rightarrow> addr \<Rightarrow> ('k, 't, eq_result) py" where
  "RawTensorStatistic_eq tensor_eq self other w =
     (case heap w other of
        RawTensorStatistic other_values \<Rightarrow>
          (case heap w self of
             RawTensorStatistic self_values \<Rightarrow>
               (let (b, w1) = call_tensor_eq tensor_eq (Tensor self_values) (Tensor other_values) None w
                in (Inr (PyBool b), w1))
           | _ \<Rightarrow> (Inl AttributeError, w))
      | _ \<Rightarrow> (Inr NotImplemented, w))"

subsection \<open>Method lookup and the operator \<^verbatim>\<open>==\<close>\<close>

text \<open>
  \<^verbatim>\<open>object.__eq__\<close>: true for the same object, \<^verbatim>\<open>NotImplemented\<close> otherwise.
\<close>

definition object_eq :: "addr \<Rightarrow> addr \<Rightarrow> ('k, 't, eq_result) py" where
  "object_eq self other w = (Inr (if self = other then PyBool True else NotImplemented), w)"

text \<open>
  \<^verbatim>\<open>type(x).__eq__(x, y)\<close>: the method of the class of \<open>x\<close>, called with two arguments, so
  that \<^verbatim>\<open>PercentileTensorStatistic.__eq__\<close> receives the default of its third parameter.
\<close>

definition dunder_eq :: "'t tensor_eq \<Rightarrow> addr \<Rightarrow> addr \<Rightarrow> ('k, 't, eq_result) py" where
  "dunder_eq tensor_eq x y w =
     (case heap w x of
        MinMaxTensorStatistic _ _ \<Rightarrow> MinMaxTensorStatistic_eq tensor_eq x y w
      | MeanTensorStatistic _ _ \<Rightarrow> MeanTensorStatistic_eq tensor_eq x y w
      | MedianMADTensorStatistic _ _ \<Rightarrow> MedianMADTensorStatistic_eq tensor_eq x y w
      | PercentileTensorStatistic _ \<Rightarrow>
          PercentileTensorStatistic_eq tensor_eq x y PercentileTensorStatistic_eq_default_rtol w
      | RawTensorStatistic _ \<Rightarrow> RawTensorStatistic_eq tensor_eq x y w
      | OtherObject \<Rightarrow> object_eq x y w)"

text \<open>
  The expression \<^verbatim>\<open>x == y\<close> between instances of these classes (none is a subclass of
  another): the method of \<open>x\<close> first; when it answers \<^verbatim>\<open>NotImplemented\<close>, the method of \<open>y\<close>
  with the operands swapped; when that answers \<^verbatim>\<open>NotImplemented\<close> too, identity of the two
  objects. An exception raised by a method propagates.
\<close>

definition equals :: "'t tensor_eq \<Rightarrow> addr \<Rightarrow> addr \<Rightarrow> ('k, 't, bool) py" where
  "equals tensor_eq x y w =
     (case dunder_eq tensor_eq x y w of
        (Inl e, w1) \<Rightarrow> (Inl e, w1)
      | (Inr (PyBool b), w1) \<Rightarrow> (Inr b, w1)
      | (Inr NotImplemented, w1) \<Rightarrow>
          (case dunder_eq tensor_eq y x w1 of
             (Inl e, w2) \<Rightarrow> (Inl e, w2)
           | (Inr (PyBool b), w2) \<Rightarrow> (Inr b, w2)
           | (Inr NotImplemented, w2) \<Rightarrow> (Inr (x = y), w2)))"

text \<open>\<^verbatim>\<open>isinstance(o, C)\<close> for the five classes, as the class of an object.\<close>

datatype pyclass = MinMaxC | MeanC | MedianMADC | PercentileC | RawC | ObjectC

fun class_of :: "('k, 't) pyobj \<Rightarrow> pyclass" where
  "class_of (MinMaxTensorStatistic _ _) = MinMaxC"
| "class_of (MeanTensorStatistic _ _) = MeanC"
| "class_of (MedianMADTensorStatistic _ _) = MedianMADC"
| "class_of (PercentileTensorStatistic _) = PercentileC"
| "class_of (RawTensorStatistic _) = RawC"
| "class_of OtherObject = ObjectC"

subsection \<open>A backend and some objects, for concrete runs\<close>

text \<open>
  Modelled from the spec: an implementation of the abstract \<^verbatim>\<open>tensor_eq\<close> (the subclasses
  that implement it for a backend are not part of this module). A tensor is a list of reals;
  two tensors are equal when they have the same length and every pair of corresponding
  elements is within the relative tolerance, \<open>\<bar>x - y\<bar> \<le> rtol * \<bar>y\<bar>\<close>; without \<^verbatim>\<open>rtol\<close> the
  declared default \<^verbatim>\<open>1e-6\<close> applies; a list of integers is read as a tensor.
\<close>

definition rel_close :: "real \<Rightarrow> real \<Rightarrow> real \<Rightarrow> bool" where
  "rel_close rtol x y = (\<bar>x - y\<bar> \<le> rtol * \<bar>y\<bar>)"

fun pyval_elems :: "real list pyval \<Rightarrow> real list" where
  "pyval_elems (Tensor xs) = xs"
| "pyval_elems (IntList ns) = map of_int ns"

definition allclose_tensor_eq :: "real list tensor_eq" where
  "allclose_tensor_eq tensor1 tensor2 rtol =
     list_all2 (rel_close (case rtol of None \<Rightarrow> tensor_eq_default_rtol | Some r \<Rightarrow> r))
       (pyval_elems tensor1) (pyval_elems tensor2)"

text \<open>
  A store with one object per address, after the examples of the specification
  (\<^verbatim>\<open>{0.5: [1.0], 99.0: [9.0]}\<close> and the same dict built in the other order, at 2 and 3;
  a dict with the key \<^verbatim>\<open>99.9\<close> instead, at 4), and an empty call log.
\<close>

definition example_world :: "(real, real list) world" where
  "example_world =
     \<lparr>heap = (\<lambda>_. OtherObject)
        (0 := MinMaxTensorStatistic [1, 2] [3, 4],
         1 := RawTensorStatistic [1, 2],
         2 := PercentileTensorStatistic [(1 / 2, [1]), (99, [9])],
         3 := PercentileTensorStatistic [(99, [9]), (1 / 2, [1])],
         4 := PercentileTensorStatistic [(1 / 2, [1]), (999 / 10, [9])],
         5 := PercentileTensorStatistic [],
         6 := PercentileTensorStatistic [(1 / 2, [1 + 1 / 10 ^ 7])],
         7 := PercentileTensorStatistic [(1 / 2, [1])],
         8 := MeanTensorStatistic [1 / 10, 2 / 10] [2],
         9 := MeanTensorStatistic [1 / 10, 2 / 10] [3],
         10 := MedianMADTensorStatistic [1] [2],
         11 := PercentileTensorStatistic []),
      calls = []\<rparr>"

section \<open>Properties\<close>

subsection \<open>Auxiliary facts\<close>

lemmas method_defs = MinMaxTensorStatistic_eq_def MeanTensorStatistic_eq_def
  MedianMADTensorStatistic_eq_def PercentileTensorStatistic_eq_def RawTensorStatistic_eq_def

lemma percentile_loop_heap:
  "heap (snd (percentile_loop teq sd od ks w)) = heap w"
proof (induction ks arbitrary: w)
  case Nil
  show ?case by simp
next
  case (Cons k ks)
  show ?case
    by (simp add: Cons.IH call_tensor_eq_def split: sum.split)
qed

lemma methods_heap:
  "heap (snd (MinMaxTensorStatistic_eq teq x y w)) = heap w"
  "heap (snd (MeanTensorStatistic_eq teq x y w)) = heap w"
  "heap (snd (MedianMADTensorStatistic_eq teq x y w)) = heap w"
  "heap (snd (PercentileTensorStatistic_eq teq x y rtol w)) = heap w"
  "heap (snd (RawTensorStatistic_eq teq x y w)) = heap w"
  by (simp_all add: method_defs percentile_loop_heap call_tensor_eq_def split: pyobj.split)

lemma dunder_eq_heap: "heap (snd (dunder_eq teq x y w)) = heap w"
  by (simp add: dunder_eq_def object_eq_def methods_heap split: pyobj.split)

lemma equals_heap: "heap (snd (equals teq x y w)) = heap w"
  unfolding equals_def
  using dunder_eq_heap[of teq x y w] dunder_eq_heap[of teq y x "snd (dunder_eq teq x y w)"]
  by (auto split: prod.split sum.split eq_result.split)

lemma dict_getitem_in:
  "k \<in> set (dict_keys d) \<Longrightarrow> dict_getitem d k = Inr (the (map_of d k))"
  by (auto simp: dict_getitem_def dict_keys_def map_of_eq_None_iff split: option.split)

text \<open>
  When every key that remains is a key of both dicts, no subscript raises, and the loop
  answers whether \<^verbatim>\<open>tensor_eq\<close> holds at every key.
\<close>

lemma percentile_loop_result:
  "set ks \<subseteq> set (dict_keys sd) \<Longrightarrow> set ks \<subseteq> set (dict_keys od) \<Longrightarrow>
   fst (percentile_loop teq sd od ks w) =
     Inr (PyBool (list_all (\<lambda>k. teq (Tensor (the (map_of sd k))) (Tensor (the (map_of od k))) None) ks))"
proof (induction ks arbitrary: w)
  case Nil
  show ?case by simp
next
  case (Cons k ks)
  then show ?case
    by (simp add: dict_getitem_in call_tensor_eq_def)
qed

lemma Counter_eq_keys:
  "Counter (dict_keys d1) = Counter (dict_keys d2) \<Longrightarrow> set (dict_keys d1) = set (dict_keys d2)"
  unfolding Counter_def by (rule mset_eq_setD)

lemma PercentileTensorStatistic_eq_result:
  assumes "heap w x = PercentileTensorStatistic d1" and "heap w y = PercentileTensorStatistic d2"
  shows "fst (PercentileTensorStatistic_eq teq x y rtol w) =
     Inr (PyBool (Counter (dict_keys d1) = Counter (dict_keys d2) \<and>
        list_all (\<lambda>k. teq (Tensor (the (map_of d1 k))) (Tensor (the (map_of d2 k))) None) (dict_keys d1)))"
proof (cases "Counter (dict_keys d1) = Counter (dict_keys d2)")
  case True
  then have "set (dict_keys d1) \<subseteq> set (dict_keys d2)"
    using Counter_eq_keys by blast
  then show ?thesis
    using assms True by (simp add: PercentileTensorStatistic_eq_def percentile_loop_result)
next
  case False
  then show ?thesis
    using assms by (simp add: PercentileTensorStatistic_eq_def)
qed

lemma MinMaxTensorStatistic_eq_result:
  "heap w x = MinMaxTensorStatistic a b \<Longrightarrow> heap w y = MinMaxTensorStatistic c d \<Longrightarrow>
   fst (MinMaxTensorStatistic_eq teq x y w) =
     Inr (PyBool (teq (Tensor a) (Tensor c) None \<and> teq (Tensor b) (Tensor d) None))"
  by (simp add: MinMaxTensorStatistic_eq_def call_tensor_eq_def)

lemma MeanTensorStatistic_eq_result:
  "heap w x = MeanTensorStatistic a b \<Longrightarrow> heap w y = MeanTensorStatistic c d \<Longrightarrow>
   fst (MeanTensorStatistic_eq teq x y w) =
     Inr (PyBool (teq (Tensor a) (Tensor c) None \<and> teq (IntList b) (IntList d) None))"
  by (simp add: MeanTensorStatistic_eq_def call_tensor_eq_def)

lemma MedianMADTensorStatistic_eq_result:
  "heap w x = MedianMADTensorStatistic a b \<Longrightarrow> heap w y = MedianMADTensorStatistic c d \<Longrightarrow>
   fst (MedianMADTensorStatistic_eq teq x y w) =
     Inr (PyBool (teq (Tensor a) (Tensor c) None \<and> teq (Tensor b) (Tensor d) None))"
  by (simp add: MedianMADTensorStatistic_eq_def call_tensor_eq_def)

lemma RawTensorStatistic_eq_result:
  "heap w x = RawTensorStatistic a \<Longrightarrow> heap w y = RawTensorStatistic c \<Longrightarrow>
   fst (RawTensorStatistic_eq teq x y w) = Inr (PyBool (teq (Tensor a) (Tensor c) None))"
  by (simp add: RawTensorStatistic_eq_def call_tensor_eq_def)

lemmas eq_results = MinMaxTensorStatistic_eq_result MeanTensorStatistic_eq_result
  MedianMADTensorStatistic_eq_result RawTensorStatistic_eq_result

lemma PercentileTensorStatistic_eq_sym:
  assumes sym: "\<forall>a b. teq a b None = teq b a None"
    and "heap w x = PercentileTensorStatistic d1" and "heap w y = PercentileTensorStatistic d2"
  shows "fst (PercentileTensorStatistic_eq teq x y r w) = fst (PercentileTensorStatistic_eq teq y x r' w)"
proof (cases "Counter (dict_keys d1) = Counter (dict_keys d2)")
  case True
  then have keys: "set (dict_keys d1) = set (dict_keys d2)"
    by (rule Counter_eq_keys)
  have "list_all (\<lambda>k. teq (Tensor (the (map_of d1 k))) (Tensor (the (map_of d2 k))) None) (dict_keys d1) =
        list_all (\<lambda>k. teq (Tensor (the (map_of d2 k))) (Tensor (the (map_of d1 k))) None) (dict_keys d2)"
    using sym keys by (simp add: list_all_iff)
  then show ?thesis
    using assms(2,3) True by (simp add: PercentileTensorStatistic_eq_result)
next
  case False
  then have "Counter (dict_keys d2) \<noteq> Counter (dict_keys d1)" by auto
  then show ?thesis
    using assms(2,3) False by (simp add: PercentileTensorStatistic_eq_result)
qed


lemma dunder_eq_sym:
  assumes sym: "\<forall>a b. teq a b None = teq b a None"
    and same: "class_of (heap w x) = class_of (heap w y)"
    and stat: "class_of (heap w x) \<noteq> ObjectC"
  shows "fst (dunder_eq teq x y w) = fst (dunder_eq teq y x w)"
proof -
  have swap: "teq a b None = teq b a None" for a b
    using sym by blast
  show ?thesis
  proof (cases "heap w x")
    case (MinMaxTensorStatistic a b)
    then obtain c d where "heap w y = MinMaxTensorStatistic c d"
      using same by (cases "heap w y") simp_all
    then show ?thesis
      using MinMaxTensorStatistic swap[of "Tensor a" "Tensor c"] swap[of "Tensor b" "Tensor d"]
      by (simp add: dunder_eq_def eq_results)
  next
    case (MeanTensorStatistic a b)
    then obtain c d where "heap w y = MeanTensorStatistic c d"
      using same by (cases "heap w y") simp_all
    then show ?thesis
      using MeanTensorStatistic swap[of "Tensor a" "Tensor c"] swap[of "IntList b" "IntList d"]
      by (simp add: dunder_eq_def eq_results)
  next
    case (MedianMADTensorStatistic a b)
    then obtain c d where "heap w y = MedianMADTensorStatistic c d"
      using same by (cases "heap w y") simp_all
    then show ?thesis
      using MedianMADTensorStatistic swap[of "Tensor a" "Tensor c"] swap[of "Tensor b" "Tensor d"]
      by (simp add: dunder_eq_def eq_results)
  next
    case (PercentileTensorStatistic d1)
    then obtain d2 where "heap w y = PercentileTensorStatistic d2"
      using same by (cases "heap w y") simp_all
    then show ?thesis
      using PercentileTensorStatistic PercentileTensorStatistic_eq_sym[of teq w x d1 y d2, OF sym]
      by (simp add: dunder_eq_def)
  next
    case (RawTensorStatistic a)
    then obtain c where "heap w y = RawTensorStatistic c"
      using same by (cases "heap w y") simp_all
    then show ?thesis
      using RawTensorStatistic swap[of "Tensor a" "Tensor c"]
      by (simp add: dunder_eq_def eq_results)
  next
    case OtherObject
    then show ?thesis using stat by simp
  qed
qed


lemma dunder_eq_same_class:
  assumes same: "class_of (heap w x) = class_of (heap w y)"
    and stat: "class_of (heap w x) \<noteq> ObjectC"
  shows "\<exists>b. fst (dunder_eq teq x y w) = Inr (PyBool b)"
proof (cases "heap w x")
  case (MinMaxTensorStatistic a b)
  then obtain c d where "heap w y = MinMaxTensorStatistic c d"
    using same by (cases "heap w y") simp_all
  with MinMaxTensorStatistic show ?thesis
    by (simp add: dunder_eq_def eq_results)
next
  case (MeanTensorStatistic a b)
  then obtain c d where "heap w y = MeanTensorStatistic c d"
    using same by (cases "heap w y") simp_all
  with MeanTensorStatistic show ?thesis
    by (simp add: dunder_eq_def eq_results)
next
  case (MedianMADTensorStatistic a b)
  then obtain c d where "heap w y = MedianMADTensorStatistic c d"
    using same by (cases "heap w y") simp_all
  with MedianMADTensorStatistic show ?thesis
    by (simp add: dunder_eq_def eq_results)
next
  case (PercentileTensorStatistic d1)
  then obtain d2 where "heap w y = PercentileTensorStatistic d2"
    using same by (cases "heap w y") simp_all
  with PercentileTensorStatistic show ?thesis
    by (simp add: dunder_eq_def PercentileTensorStatistic_eq_result)
next
  case (RawTensorStatistic a)
  then obtain c where "heap w y = RawTensorStatistic c"
    using same by (cases "heap w y") simp_all
  with RawTensorStatistic show ?thesis
    by (simp add: dunder_eq_def eq_results)
next
  case OtherObject
  then show ?thesis using stat by simp
qed


lemma equals_decided:
  "fst (dunder_eq teq x y w) = Inr (PyBool b) \<Longrightarrow> fst (equals teq x y w) = Inr b"
  by (cases "dunder_eq teq x y w") (simp add: equals_def)


lemma map_of_perm:
  assumes "mset d' = mset d" and "distinct (map fst d)"
  shows "map_of d' = map_of d"
proof -
  have "mset (map fst d') = mset (map fst d)"
    using assms(1) by simp
  then have "distinct (map fst d') = distinct (map fst d)"
    by (rule mset_eq_imp_distinct_iff)
  then have dist: "distinct (map fst d')"
    using assms(2) by simp
  have "set d' = set d"
    using assms(1) by (rule mset_eq_setD)
  then show ?thesis
    using map_of_inject_set[OF dist assms(2)] by simp
qed



text \<open>
  Every call of \<^verbatim>\<open>tensor_eq\<close> that \<^verbatim>\<open>PercentileTensorStatistic.__eq__\<close> makes omits \<^verbatim>\<open>rtol\<close>,
  whatever the operands and whatever the \<open>rtol\<close> the method received.
\<close>

lemma percentile_loop_calls:
  "\<exists>cs. calls (snd (percentile_loop teq sd od ks w)) = calls w @ cs \<and>
     list_all (\<lambda>c. snd (snd c) = None) cs"
proof (induction ks arbitrary: w)
  case Nil
  show ?case by simp
next
  case (Cons k ks)
  show ?case
  proof (cases "dict_getitem sd k")
    case (Inl e)
    then show ?thesis by simp
  next
    case sv: (Inr self_v)
    show ?thesis
    proof (cases "dict_getitem od k")
      case (Inl e)
      with sv show ?thesis by simp
    next
      case ov: (Inr other_v)
      let ?c = "(Tensor self_v, Tensor other_v, None :: real option)"
      let ?w1 = "w\<lparr>calls := calls w @ [?c]\<rparr>"
      show ?thesis
      proof (cases "teq (Tensor self_v) (Tensor other_v) None")
        case False
        then have "calls (snd (percentile_loop teq sd od (k # ks) w)) = calls w @ [?c]"
          using sv ov by (simp add: call_tensor_eq_def)
        moreover have "list_all (\<lambda>c. snd (snd c) = None) [?c]"
          by simp
        ultimately show ?thesis by blast
      next
        case True
        then have step: "percentile_loop teq sd od (k # ks) w = percentile_loop teq sd od ks ?w1"
          using sv ov by (simp add: call_tensor_eq_def)
        obtain cs where cs: "calls (snd (percentile_loop teq sd od ks ?w1)) = calls ?w1 @ cs"
          and none: "list_all (\<lambda>c. snd (snd c) = None) cs"
          using Cons.IH by blast
        have "calls (snd (percentile_loop teq sd od (k # ks) w)) = calls w @ (?c # cs)"
          using step cs by simp
        moreover have "list_all (\<lambda>c. snd (snd c) = None) (?c # cs)"
          using none by simp
        ultimately show ?thesis by blast
      qed
    qed
  qed
qed

lemma PercentileTensorStatistic_eq_omits_rtol:
  "\<exists>cs. calls (snd (PercentileTensorStatistic_eq teq x y rtol w)) = calls w @ cs \<and>
     list_all (\<lambda>c. snd (snd c) = None) cs"
proof (cases "\<exists>d1 d2. heap w x = PercentileTensorStatistic d1 \<and> heap w y = PercentileTensorStatistic d2 \<and>
    Counter (dict_keys d1) = Counter (dict_keys d2)")
  case True
  then obtain d1 d2 where "heap w x = PercentileTensorStatistic d1"
    and "heap w y = PercentileTensorStatistic d2"
    and "Counter (dict_keys d1) = Counter (dict_keys d2)"
    by blast
  then have "PercentileTensorStatistic_eq teq x y rtol w = percentile_loop teq d1 d2 (dict_keys d1) w"
    by (simp add: PercentileTensorStatistic_eq_def)
  then show ?thesis
    using percentile_loop_calls[of teq d1 d2 "dict_keys d1" w] by simp
next
  case False
  then have "snd (PercentileTensorStatistic_eq teq x y rtol w) = w"
    by (auto simp: PercentileTensorStatistic_eq_def split: pyobj.split)
  then show ?thesis by simp
qed

subsection \<open>The claims\<close>

text \<open>
  C1. The claim: when the key sets of two \<^verbatim>\<open>PercentileTensorStatistic\<close> instances agree, the
  values are compared by \<^verbatim>\<open>tensor_eq\<close> with the relative tolerance \<^verbatim>\<open>1e-9\<close>, not the
  general default \<^verbatim>\<open>1e-6\<close>. The method declares \<^verbatim>\<open>rtol = 1e-9\<close> and never passes it on.
  On the dicts \<^verbatim>\<open>{0.5: [1.0]}\<close> and \<^verbatim>\<open>{0.5: [1.0000001]}\<close>, with the relative-tolerance
  backend: the one call that is made carries no \<^verbatim>\<open>rtol\<close>, the method answers \<^verbatim>\<open>True\<close>, and
  the same two tensors are not equal at the tolerance \<^verbatim>\<open>1e-9\<close>.
\<close>

theorem percentile_eq_drops_declared_rtol:
  "PercentileTensorStatistic_eq allclose_tensor_eq 7 6 PercentileTensorStatistic_eq_default_rtol
       example_world =
     (Inr (PyBool True),
      example_world\<lparr>calls := [(Tensor [1], Tensor [1 + 1 / 10 ^ 7], None)]\<rparr>) \<and>
   \<not> allclose_tensor_eq (Tensor [1]) (Tensor [1 + 1 / 10 ^ 7])
       (Some PercentileTensorStatistic_eq_default_rtol)"
  by (simp add: PercentileTensorStatistic_eq_def example_world_def dict_keys_def Counter_def
      dict_getitem_def call_tensor_eq_def allclose_tensor_eq_def rel_close_def
      tensor_eq_default_rtol_def PercentileTensorStatistic_eq_default_rtol_def)

text \<open>
  C2. For an instance \<open>x\<close> of one of the five classes and a value \<open>y\<close> that is not an instance
  of the class of \<open>x\<close>, the \<^verbatim>\<open>__eq__\<close> of \<open>x\<close> returns \<^verbatim>\<open>NotImplemented\<close>: it raises nothing,
  calls nothing and leaves the state as it was. When \<open>y\<close> is an instance of another of the
  five classes (as for a \<^verbatim>\<open>MinMaxTensorStatistic\<close> and a \<^verbatim>\<open>RawTensorStatistic\<close>), \<^verbatim>\<open>x == y\<close>
  is \<^verbatim>\<open>False\<close> and raises nothing.
\<close>

theorem eq_other_class_NotImplemented:
  assumes "class_of (heap w x) \<noteq> ObjectC" and "class_of (heap w y) \<noteq> class_of (heap w x)"
  shows "dunder_eq teq x y w = (Inr NotImplemented, w) \<and>
         (class_of (heap w y) \<noteq> ObjectC \<longrightarrow> equals teq x y w = (Inr False, w))"
proof -
  have ne: "x \<noteq> y"
    using assms by auto
  have fwd: "dunder_eq teq x y w = (Inr NotImplemented, w)"
    using assms
    by (cases "heap w x"; cases "heap w y") (simp_all add: dunder_eq_def method_defs)
  have bwd: "dunder_eq teq y x w = (Inr NotImplemented, w)" if "class_of (heap w y) \<noteq> ObjectC"
    using assms that
    by (cases "heap w x"; cases "heap w y") (simp_all add: dunder_eq_def method_defs)
  show ?thesis
    using fwd bwd ne by (simp add: equals_def)
qed

theorem eq_other_class_NotImplemented_witness:
  "class_of (heap example_world 0) = MinMaxC \<and> class_of (heap example_world 1) = RawC \<and>
   dunder_eq allclose_tensor_eq 0 1 example_world = (Inr NotImplemented, example_world) \<and>
   equals allclose_tensor_eq 0 1 example_world = (Inr False, example_world)"
proof -
  have x: "class_of (heap example_world 0) = MinMaxC"
    and y: "class_of (heap example_world 1) = RawC"
    by (simp_all add: example_world_def)
  show ?thesis
    using eq_other_class_NotImplemented[of example_world 0 1 allclose_tensor_eq] x y by simp
qed

text \<open>
  C3. When the multisets of the keys of two \<^verbatim>\<open>PercentileTensorStatistic\<close> instances differ,
  the method returns \<^verbatim>\<open>False\<close> and the state it returns is the state it was given: the log
  of \<^verbatim>\<open>tensor_eq\<close> calls has not grown, so no value was compared.
\<close>

theorem percentile_eq_keys_differ:
  assumes "heap w x = PercentileTensorStatistic d1" and "heap w y = PercentileTensorStatistic d2"
    and "mset (map fst d1) \<noteq> mset (map fst d2)"
  shows "PercentileTensorStatistic_eq teq x y rtol w = (Inr (PyBool False), w)"
  using assms by (simp add: PercentileTensorStatistic_eq_def dict_keys_def Counter_def)

theorem percentile_eq_keys_differ_witness:
  "heap example_world 2 = PercentileTensorStatistic [(1 / 2, [1]), (99, [9])] \<and>
   heap example_world 4 = PercentileTensorStatistic [(1 / 2, [1]), (999 / 10, [9])] \<and>
   mset (map fst [(1 / 2 :: real, [1 :: real]), (99, [9])]) \<noteq>
     mset (map fst [(1 / 2 :: real, [1 :: real]), (999 / 10, [9])]) \<and>
   PercentileTensorStatistic_eq allclose_tensor_eq 2 4 PercentileTensorStatistic_eq_default_rtol
       example_world = (Inr (PyBool False), example_world)"
proof -
  have x: "heap example_world 2 = PercentileTensorStatistic [(1 / 2, [1]), (99, [9])]"
    and y: "heap example_world 4 = PercentileTensorStatistic [(1 / 2, [1]), (999 / 10, [9])]"
    by (simp_all add: example_world_def)
  have k: "mset (map fst [(1 / 2 :: real, [1 :: real]), (99, [9])]) \<noteq>
      mset (map fst [(1 / 2 :: real, [1 :: real]), (999 / 10, [9])])"
    by simp
  show ?thesis
    using percentile_eq_keys_differ[OF x y k] x y k by blast
qed

text \<open>
  C4. The result of comparing two \<^verbatim>\<open>PercentileTensorStatistic\<close> instances does not depend on
  the order in which either dict was built: two operands with the same (key, value) pairs as
  \<open>x\<close> and \<open>y\<close>, in any order (and in any state), give the same result. The keys of a
  dict are distinct.
\<close>

theorem percentile_eq_order_independent:
  assumes x: "heap w x = PercentileTensorStatistic d1" and y: "heap w y = PercentileTensorStatistic d2"
    and x': "heap w' x' = PercentileTensorStatistic d1'" and y': "heap w' y' = PercentileTensorStatistic d2'"
    and p1: "mset d1' = mset d1" and p2: "mset d2' = mset d2"
    and dist1: "distinct (map fst d1)" and dist2: "distinct (map fst d2)"
  shows "fst (PercentileTensorStatistic_eq teq x' y' rtol_b w') =
         fst (PercentileTensorStatistic_eq teq x y rtol_a w)"
proof -
  have m1: "map_of d1' = map_of d1"
    using p1 dist1 by (rule map_of_perm)
  have m2: "map_of d2' = map_of d2"
    using p2 dist2 by (rule map_of_perm)
  have "mset (map fst d1') = mset (map fst d1)"
    using p1 by simp
  then have c1: "Counter (dict_keys d1') = Counter (dict_keys d1)"
    by (simp only: Counter_def dict_keys_def)
  have "mset (map fst d2') = mset (map fst d2)"
    using p2 by simp
  then have c2: "Counter (dict_keys d2') = Counter (dict_keys d2)"
    by (simp only: Counter_def dict_keys_def)
  have "set (dict_keys d1') = set (dict_keys d1)"
    using c1 by (rule Counter_eq_keys)
  then have la: "list_all P (dict_keys d1') = list_all P (dict_keys d1)" for P
    by (simp only: list_all_iff)
  show ?thesis
    by (simp only: PercentileTensorStatistic_eq_result[OF x' y']
        PercentileTensorStatistic_eq_result[OF x y] m1 m2 c1 c2 la)
qed


theorem percentile_eq_order_independent_witness:
  "fst (PercentileTensorStatistic_eq allclose_tensor_eq 2 3 PercentileTensorStatistic_eq_default_rtol
          example_world) =
   fst (PercentileTensorStatistic_eq allclose_tensor_eq 2 2 PercentileTensorStatistic_eq_default_rtol
          example_world) \<and>
   fst (PercentileTensorStatistic_eq allclose_tensor_eq 2 3 PercentileTensorStatistic_eq_default_rtol
          example_world) = Inr (PyBool True)"
proof -
  let ?d = "[(1 / 2 :: real, [1 :: real]), (99, [9])]"
  let ?d' = "[(99 :: real, [9 :: real]), (1 / 2, [1])]"
  have x: "heap example_world 2 = PercentileTensorStatistic ?d"
    and y': "heap example_world 3 = PercentileTensorStatistic ?d'"
    by (simp_all add: example_world_def)
  have p1: "mset ?d = mset ?d" and p2: "mset ?d' = mset ?d"
    by simp_all
  have dist: "distinct (map fst ?d)"
    by simp
  have same: "fst (PercentileTensorStatistic_eq allclose_tensor_eq 2 3
        PercentileTensorStatistic_eq_default_rtol example_world) =
      fst (PercentileTensorStatistic_eq allclose_tensor_eq 2 2
        PercentileTensorStatistic_eq_default_rtol example_world)"
    using x x x y' p1 p2 dist dist by (rule percentile_eq_order_independent)
  have "fst (PercentileTensorStatistic_eq allclose_tensor_eq 2 2
        PercentileTensorStatistic_eq_default_rtol example_world) = Inr (PyBool True)"
    by (simp add: PercentileTensorStatistic_eq_def example_world_def dict_keys_def
        dict_getitem_def call_tensor_eq_def allclose_tensor_eq_def rel_close_def
        tensor_eq_default_rtol_def)
  with same show ?thesis by simp
qed

text \<open>
  C5. For two instances of \<^verbatim>\<open>MinMaxTensorStatistic\<close>, of \<^verbatim>\<open>MedianMADTensorStatistic\<close> or of
  \<^verbatim>\<open>RawTensorStatistic\<close>, the method returns the boolean that is true exactly when
  \<^verbatim>\<open>tensor_eq\<close> holds for every pair of corresponding fields (\<^verbatim>\<open>min_values\<close> and
  \<^verbatim>\<open>max_values\<close>; \<^verbatim>\<open>median_values\<close> and \<^verbatim>\<open>mad_values\<close>; \<^verbatim>\<open>values\<close>).
\<close>

theorem eq_iff_fields_tensor_eq:
  "(heap w xm = MinMaxTensorStatistic smin smax \<and> heap w ym = MinMaxTensorStatistic omin omax \<longrightarrow>
      fst (MinMaxTensorStatistic_eq teq xm ym w) =
        Inr (PyBool (teq (Tensor smin) (Tensor omin) None \<and> teq (Tensor smax) (Tensor omax) None))) \<and>
   (heap w xd = MedianMADTensorStatistic smed smad \<and> heap w yd = MedianMADTensorStatistic omed omad \<longrightarrow>
      fst (MedianMADTensorStatistic_eq teq xd yd w) =
        Inr (PyBool (teq (Tensor smed) (Tensor omed) None \<and> teq (Tensor smad) (Tensor omad) None))) \<and>
   (heap w xr = RawTensorStatistic sval \<and> heap w yr = RawTensorStatistic oval \<longrightarrow>
      fst (RawTensorStatistic_eq teq xr yr w) = Inr (PyBool (teq (Tensor sval) (Tensor oval) None)))"
  by (simp add: eq_results)

theorem eq_iff_fields_tensor_eq_witness:
  "fst (MinMaxTensorStatistic_eq allclose_tensor_eq 0 0 example_world) = Inr (PyBool True) \<and>
   fst (MedianMADTensorStatistic_eq allclose_tensor_eq 10 10 example_world) = Inr (PyBool True) \<and>
   fst (RawTensorStatistic_eq allclose_tensor_eq 1 1 example_world) = Inr (PyBool True)"
proof -
  have mm: "heap example_world 0 = MinMaxTensorStatistic [1, 2] [3, 4]"
    and md: "heap example_world 10 = MedianMADTensorStatistic [1] [2]"
    and rw: "heap example_world 1 = RawTensorStatistic [1, 2]"
    by (simp_all add: example_world_def)
  have close: "allclose_tensor_eq (Tensor [1, 2]) (Tensor [1, 2]) None"
    "allclose_tensor_eq (Tensor [3, 4]) (Tensor [3, 4]) None"
    "allclose_tensor_eq (Tensor [1]) (Tensor [1]) None"
    "allclose_tensor_eq (Tensor [2]) (Tensor [2]) None"
    by (simp_all add: allclose_tensor_eq_def rel_close_def tensor_eq_default_rtol_def)
  show ?thesis
    using eq_iff_fields_tensor_eq[where w = example_world and teq = allclose_tensor_eq
        and xm = 0 and ym = 0 and smin = "[1, 2]" and smax = "[3, 4]" and omin = "[1, 2]" and omax = "[3, 4]"
        and xd = 10 and yd = 10 and smed = "[1]" and smad = "[2]" and omed = "[1]" and omad = "[2]"
        and xr = 1 and yr = 1 and sval = "[1, 2]" and oval = "[1, 2]"]
      mm md rw close
    by simp
qed

text \<open>
  C6. For two \<^verbatim>\<open>MeanTensorStatistic\<close> instances the method returns the boolean that is true
  exactly when \<^verbatim>\<open>tensor_eq\<close> holds on the \<^verbatim>\<open>mean_values\<close> and on the \<^verbatim>\<open>shape\<close> fields. The
  shapes are compared by \<^verbatim>\<open>tensor_eq\<close> itself, called as for the tensors (no \<^verbatim>\<open>rtol\<close>): the
  calls made are the one on the means and, when it holds, the one on the two integer lists.
\<close>

theorem mean_eq_iff_mean_and_shape:
  assumes "heap w x = MeanTensorStatistic m1 s1" and "heap w y = MeanTensorStatistic m2 s2"
  shows "fst (MeanTensorStatistic_eq teq x y w) =
           Inr (PyBool (teq (Tensor m1) (Tensor m2) None \<and> teq (IntList s1) (IntList s2) None)) \<and>
         calls (snd (MeanTensorStatistic_eq teq x y w)) =
           calls w @ (Tensor m1, Tensor m2, None) #
             (if teq (Tensor m1) (Tensor m2) None then [(IntList s1, IntList s2, None)] else [])"
  using assms by (simp add: MeanTensorStatistic_eq_def call_tensor_eq_def)

theorem mean_eq_iff_mean_and_shape_witness:
  "fst (MeanTensorStatistic_eq allclose_tensor_eq 8 9 example_world) = Inr (PyBool False) \<and>
   calls (snd (MeanTensorStatistic_eq allclose_tensor_eq 8 9 example_world)) =
     [(Tensor [1 / 10, 2 / 10], Tensor [1 / 10, 2 / 10], None), (IntList [2], IntList [3], None)]"
proof -
  have x: "heap example_world 8 = MeanTensorStatistic [1 / 10, 2 / 10] [2]"
    and y: "heap example_world 9 = MeanTensorStatistic [1 / 10, 2 / 10] [3]"
    by (simp_all add: example_world_def)
  have means: "allclose_tensor_eq (Tensor [1 / 10, 2 / 10]) (Tensor [1 / 10, 2 / 10]) None"
    and shapes: "\<not> allclose_tensor_eq (IntList [2]) (IntList [3]) None"
    by (simp_all add: allclose_tensor_eq_def rel_close_def tensor_eq_default_rtol_def)
  have empty: "calls example_world = []"
    by (simp add: example_world_def)
  show ?thesis
    using mean_eq_iff_mean_and_shape[OF x y, of allclose_tensor_eq] means shapes empty by simp
qed

text \<open>
  C7. When \<^verbatim>\<open>tensor_eq\<close>, called as the methods call it, is symmetric in its two tensors, then
  for two instances \<open>x\<close> and \<open>y\<close> of the same class \<^verbatim>\<open>x.__eq__(y)\<close> and \<^verbatim>\<open>y.__eq__(x)\<close> return
  the same result, and so do \<^verbatim>\<open>x == y\<close> and \<^verbatim>\<open>y == x\<close>.
\<close>

theorem eq_symmetric:
  assumes sym: "\<forall>a b. teq a b None = teq b a None"
    and same: "class_of (heap w x) = class_of (heap w y)"
    and stat: "class_of (heap w x) \<noteq> ObjectC"
  shows "fst (dunder_eq teq x y w) = fst (dunder_eq teq y x w) \<and>
         fst (equals teq x y w) = fst (equals teq y x w)"
proof -
  have d: "fst (dunder_eq teq x y w) = fst (dunder_eq teq y x w)"
    using sym same stat by (rule dunder_eq_sym)
  obtain b where b: "fst (dunder_eq teq x y w) = Inr (PyBool b)"
    using dunder_eq_same_class[OF same stat] by blast
  then have "fst (equals teq x y w) = Inr b" and "fst (equals teq y x w) = Inr b"
    using d by (simp_all add: equals_decided)
  with d show ?thesis by simp
qed


theorem eq_symmetric_witness:
  "fst (equals (\<lambda>a b r. a = b) 2 3 example_world) = fst (equals (\<lambda>a b r. a = b) 3 2 example_world) \<and>
   fst (dunder_eq (\<lambda>a b r. a = b) 2 3 example_world) = Inr (PyBool True)"
proof -
  have sym: "\<forall>a b. (\<lambda>a b (r :: real option). (a :: real list pyval) = b) a b None =
      (\<lambda>a b r. a = b) b a None"
    by auto
  have same: "class_of (heap example_world 2) = class_of (heap example_world 3)"
    and stat: "class_of (heap example_world 2) \<noteq> ObjectC"
    by (simp_all add: example_world_def)
  have "fst (dunder_eq (\<lambda>a b r. a = b) 2 3 example_world) = Inr (PyBool True)"
    by (simp add: dunder_eq_def PercentileTensorStatistic_eq_def example_world_def dict_keys_def
        Counter_def dict_getitem_def call_tensor_eq_def)
  then show ?thesis
    using eq_symmetric[OF sym same stat] by simp
qed

text \<open>
  C8. No \<^verbatim>\<open>__eq__\<close> changes an object: the store a method returns is the store it was given,
  for every state and every pair of operands (also when both are the same object, and when
  \<open>other\<close> is of another class), and so is the store after \<^verbatim>\<open>x == y\<close>. Every field of every
  object, those of the two operands among them, is therefore as before.
\<close>

theorem eq_preserves_heap:
  "heap (snd (MinMaxTensorStatistic_eq teq x y w)) = heap w \<and>
   heap (snd (MeanTensorStatistic_eq teq x y w)) = heap w \<and>
   heap (snd (MedianMADTensorStatistic_eq teq x y w)) = heap w \<and>
   heap (snd (PercentileTensorStatistic_eq teq x y rtol w)) = heap w \<and>
   heap (snd (RawTensorStatistic_eq teq x y w)) = heap w \<and>
   heap (snd (dunder_eq teq x y w)) = heap w \<and>
   heap (snd (equals teq x y w)) = heap w"
  by (simp add: methods_heap dunder_eq_heap equals_heap)

text \<open>
  C9. The result of \<^verbatim>\<open>PercentileTensorStatistic.__eq__\<close>, and the state it leaves, are the same
  for any two values of its parameter \<^verbatim>\<open>rtol\<close>.
\<close>

theorem percentile_eq_rtol_irrelevant:
  "PercentileTensorStatistic_eq teq x y r1 w = PercentileTensorStatistic_eq teq x y r2 w"
  by (simp add: PercentileTensorStatistic_eq_def)

text \<open>
  C10. Two \<^verbatim>\<open>PercentileTensorStatistic\<close> instances whose dicts are both empty compare equal,
  whatever \<^verbatim>\<open>tensor_eq\<close> is, and \<^verbatim>\<open>tensor_eq\<close> is not called.
\<close>

theorem percentile_eq_empty_dicts:
  assumes "heap w x = PercentileTensorStatistic []" and "heap w y = PercentileTensorStatistic []"
  shows "PercentileTensorStatistic_eq teq x y rtol w = (Inr (PyBool True), w)"
  using assms by (simp add: PercentileTensorStatistic_eq_def dict_keys_def)

theorem percentile_eq_empty_dicts_witness:
  "heap example_world 5 = PercentileTensorStatistic [] \<and>
   heap example_world 11 = PercentileTensorStatistic [] \<and>
   PercentileTensorStatistic_eq (\<lambda>a b r. False) 5 11 PercentileTensorStatistic_eq_default_rtol
       example_world = (Inr (PyBool True), example_world)"
proof -
  have x: "heap example_world 5 = PercentileTensorStatistic []"
    and y: "heap example_world 11 = PercentileTensorStatistic []"
    by (simp_all add: example_world_def)
  show ?thesis
    using percentile_eq_empty_dicts[OF x y] x y by blast
qed

end
